theory Spec2Isabelle
  imports Complex_Main
begin

section \<open>Numbers, errors and arrays\<close>

text \<open>
  Pixel values are numpy float64 numbers. They are modelled as real numbers extended with
  the three special values of IEEE arithmetic, so that the not-a-number and infinity
  results of a division by zero are values of the model. Rounding, overflow, underflow and
  the sign of zero are not modelled: arithmetic on finite values is exact, which float64
  arithmetic is only where the exact result is a float64 number (the mean of three pixels
  of 0.1 is not). The properties below state a computed pixel value only at such inputs;
  what they state for all inputs is about frames that are kept, replaced or sliced, about
  shapes, flags and errors.
\<close>

datatype fval = Fin real | PInf | NInf | NaN

fun fsub :: "fval \<Rightarrow> fval \<Rightarrow> fval" where
  "fsub (Fin a) (Fin b) = Fin (a - b)"
| "fsub NaN _ = NaN"
| "fsub _ NaN = NaN"
| "fsub PInf PInf = NaN"
| "fsub NInf NInf = NaN"
| "fsub PInf _ = PInf"
| "fsub NInf _ = NInf"
| "fsub (Fin a) PInf = NInf"
| "fsub (Fin a) NInf = PInf"

fun fadd :: "fval \<Rightarrow> fval \<Rightarrow> fval" where
  "fadd (Fin a) (Fin b) = Fin (a + b)"
| "fadd NaN _ = NaN"
| "fadd _ NaN = NaN"
| "fadd PInf NInf = NaN"
| "fadd NInf PInf = NaN"
| "fadd PInf _ = PInf"
| "fadd NInf _ = NInf"
| "fadd (Fin a) PInf = PInf"
| "fadd (Fin a) NInf = NInf"

text \<open>
  numpy's true division never raises: a finite value over zero is an infinity (or
  not-a-number for 0/0), with a warning only.
\<close>

fun fdiv :: "fval \<Rightarrow> fval \<Rightarrow> fval" where
  "fdiv (Fin a) (Fin b) =
     (if b \<noteq> 0 then Fin (a / b)
      else if a = 0 then NaN
      else if 0 < a then PInf else NInf)"
| "fdiv NaN _ = NaN"
| "fdiv _ NaN = NaN"
| "fdiv (Fin a) _ = Fin 0"
| "fdiv PInf (Fin b) = (if 0 \<le> b then PInf else NInf)"
| "fdiv NInf (Fin b) = (if 0 \<le> b then NInf else PInf)"
| "fdiv _ _ = NaN"

definition fsum :: "fval list \<Rightarrow> fval" where
  "fsum xs = foldl fadd (Fin 0) xs"

text \<open>\<open>np.mean\<close>: the sum over the number of elements; the mean of no element is 0/0.\<close>

definition np_mean_list :: "fval list \<Rightarrow> fval" where
  "np_mean_list xs = fdiv (fsum xs) (Fin (real (length xs)))"

text \<open>
  The errors of the pipeline. The first eight are raised by the source itself and carry the
  name the specification gives them; the raise statement is noted beside each. The others
  are raised by the interpreter or by numpy inside a statement of the source.
\<close>

datatype error =
    OperationNotAllowed  \<comment> \<open>\<open>IOError\<close> of \<open>load\<close>\<close>
  | UnsupportedFormat    \<comment> \<open>\<open>OSError\<close> of \<open>load_file\<close>, unknown extension\<close>
  | NotFound             \<comment> \<open>\<open>OSError\<close> of \<open>load_file\<close>, not a file\<close>
  | ShapeMismatch        \<comment> \<open>\<open>IOError\<close> of \<open>save_or_check_shape\<close> and \<open>__df_correction\<close>,
                             \<open>ValueError\<close> of \<open>normalization\<close>\<close>
  | CountMismatch        \<comment> \<open>\<open>IOError\<close> of \<open>normalization\<close>\<close>
  | MissingData          \<comment> \<open>\<open>IOError\<close> of \<open>normalization\<close>, \<open>crop\<close>, \<open>binning\<close>\<close>
  | InvalidROI           \<comment> \<open>\<open>ValueError\<close> of \<open>normalization\<close>, \<open>crop\<close>, \<open>oscillation\<close>\<close>
  | InvalidArgument      \<comment> \<open>\<open>ValueError\<close> of \<open>binning\<close>\<close>
  | KeyError             \<comment> \<open>a role name that is no key of \<open>self.data\<close>\<close>
  | TypeError            \<comment> \<open>\<open>np.isnan\<close> of a value that is no number\<close>
  | ZeroDivisionError    \<comment> \<open>\<open>height/bin\<close> with \<open>bin == 0\<close>\<close>
  | UnpackError          \<comment> \<open>\<open>[height, width] = np.shape(..)\<close> of an array that is not 2-D\<close>
  | IndexError           \<comment> \<open>two slices applied to an array of fewer than two axes,
                             or \<open>[0]\<close> of an empty list\<close>
  | BroadcastError       \<comment> \<open>operands of \<open>-\<close> that numpy cannot broadcast\<close>
  | ReshapeError         \<comment> \<open>\<open>reshape\<close> to a negative size or to another number of elements\<close>
  | LoaderError          \<comment> \<open>whatever a file decoder or the directory lister raises\<close>

datatype 'a outcome = Returns 'a | Raises error

text \<open>
  A numpy array: its shape and its elements in row-major order. An array of the program
  has as many elements as the product of its shape (\<open>wf_array\<close>); the operations
  below keep it so.
\<close>

record ndarray =
  shp :: "nat list"
  dat :: "fval list"

definition wf_array :: "ndarray \<Rightarrow> bool" where
  "wf_array a \<longleftrightarrow> length (dat a) = prod_list (shp a)"

text \<open>The array of shape \<open>(h, w)\<close> whose elements are all \<open>v\<close>.\<close>

definition uniform :: "nat \<Rightarrow> nat \<Rightarrow> fval \<Rightarrow> ndarray" where
  "uniform h w v = \<lparr>shp = [h, w], dat = replicate (h * w) v\<rparr>"

text \<open>
  A Python slice \<open>xs[a:b]\<close>: a negative bound counts from the end, and both bounds are
  clamped to the length.
\<close>

definition slice_bound :: "nat \<Rightarrow> int \<Rightarrow> nat" where
  "slice_bound n a = (if a < 0 then nat (max (a + int n) 0) else min (nat a) n)"

definition py_slice :: "int \<Rightarrow> int \<Rightarrow> 'a list \<Rightarrow> 'a list" where
  "py_slice a b xs =
     (let lo = slice_bound (length xs) a; hi = slice_bound (length xs) b
      in take (hi - lo) (drop lo xs))"

text \<open>The \<open>m\<close> consecutive blocks of \<open>n\<close> elements each of a row-major list.\<close>

definition split_rows :: "nat \<Rightarrow> nat \<Rightarrow> 'a list \<Rightarrow> 'a list list" where
  "split_rows m n xs = map (\<lambda>i. take n (drop (i * n) xs)) [0..<m]"

text \<open>
  \<open>a[r0:r1, c0:c1]\<close>: slices along the first two axes; numpy raises IndexError when the
  array has fewer than two.
\<close>

definition slice2 :: "int \<Rightarrow> int \<Rightarrow> int \<Rightarrow> int \<Rightarrow> ndarray \<Rightarrow> ndarray outcome" where
  "slice2 r0 r1 c0 c1 a =
     (case shp a of
        d0 # d1 # rest \<Rightarrow>
          (let p = prod_list rest;
               rows = py_slice r0 r1 (split_rows d0 (d1 * p) (dat a));
               cells = map (\<lambda>r. py_slice c0 c1 (split_rows d1 p r)) rows
           in Returns \<lparr>shp = length rows # length (py_slice c0 c1 [0..<d1]) # rest,
                        dat = concat (map concat cells)\<rparr>)
      | _ \<Rightarrow> Raises IndexError)"

definition np_mean :: "ndarray \<Rightarrow> fval" where
  "np_mean a = np_mean_list (dat a)"

definition div_scalar :: "ndarray \<Rightarrow> fval \<Rightarrow> ndarray" where
  "div_scalar a m = a\<lparr>dat := map (\<lambda>x. fdiv x m) (dat a)\<rparr>"

subsection \<open>Element-wise operations with broadcasting\<close>

text \<open>
  numpy aligns two shapes at their last axis; two sizes are compatible when they are
  equal or one of them is 1. The functions below work on the reversed shapes.
\<close>

fun broadcast_rev :: "nat list \<Rightarrow> nat list \<Rightarrow> nat list option" where
  "broadcast_rev [] ys = Some ys"
| "broadcast_rev xs [] = Some xs"
| "broadcast_rev (x # xs) (y # ys) =
     (if x = y \<or> y = 1 then map_option ((#) x) (broadcast_rev xs ys)
      else if x = 1 then map_option ((#) y) (broadcast_rev xs ys)
      else None)"

definition broadcast_shape :: "nat list \<Rightarrow> nat list \<Rightarrow> nat list option" where
  "broadcast_shape s t = map_option rev (broadcast_rev (rev s) (rev t))"

fun unravel :: "nat list \<Rightarrow> nat \<Rightarrow> nat list" where
  "unravel [] k = []"
| "unravel (d # ds) k = (k div prod_list ds) # unravel ds (k mod prod_list ds)"

fun ravel :: "nat list \<Rightarrow> nat list \<Rightarrow> nat" where
  "ravel (d # ds) (i # is) = i * prod_list ds + ravel ds is"
| "ravel _ _ = 0"

text \<open>The index into an operand of shape \<open>s\<close> for the index \<open>idx\<close> into the result.\<close>

definition operand_index :: "nat list \<Rightarrow> nat list \<Rightarrow> nat" where
  "operand_index s idx =
     ravel s (map (\<lambda>(d, i). if d = 1 then 0 else i) (zip s (drop (length idx - length s) idx)))"

definition np_binop :: "(fval \<Rightarrow> fval \<Rightarrow> fval) \<Rightarrow> ndarray \<Rightarrow> ndarray \<Rightarrow> ndarray outcome" where
  "np_binop f a b =
     (case broadcast_shape (shp a) (shp b) of
        None \<Rightarrow> Raises BroadcastError
      | Some s \<Rightarrow>
          Returns \<lparr>shp = s,
                   dat = map (\<lambda>k. f (dat a ! operand_index (shp a) (unravel s k))
                                     (dat b ! operand_index (shp b) (unravel s k)))
                             [0..<prod_list s]\<rparr>)"

definition np_sub :: "ndarray \<Rightarrow> ndarray \<Rightarrow> ndarray outcome" where
  "np_sub = np_binop fsub"

text \<open>
  A Python list of arrays used as an operand is converted by numpy to one array with a new
  first axis; the arrays must agree in shape.
\<close>

definition np_asarray :: "ndarray list \<Rightarrow> ndarray outcome" where
  "np_asarray fs =
     (case fs of
        [] \<Rightarrow> Returns \<lparr>shp = [0], dat = []\<rparr>
      | f # _ \<Rightarrow>
          if list_all (\<lambda>g. shp g = shp f) fs
          then Returns \<lparr>shp = length fs # shp f, dat = concat (map dat fs)\<rparr>
          else Raises BroadcastError)"

text \<open>A list comprehension whose body may raise: the first error ends it.\<close>

fun comprehension :: "('a \<Rightarrow> 'b outcome) \<Rightarrow> 'a list \<Rightarrow> 'b list outcome" where
  "comprehension f [] = Returns []"
| "comprehension f (x # xs) =
     (case f x of
        Raises e \<Rightarrow> Raises e
      | Returns y \<Rightarrow>
          (case comprehension f xs of Raises e \<Rightarrow> Raises e | Returns ys \<Rightarrow> Returns (y # ys)))"

section \<open>The pipeline state\<close>

text \<open>
  A stored shape is \<open>{'width': NaN, 'height': NaN}\<close> until the first frame of the role is
  loaded; \<open>None\<close> stands for the NaN.
\<close>

record shape_dict =
  height :: "nat option"
  width :: "nat option"

definition unknown_shape :: shape_dict where
  "unknown_shape = \<lparr>height = None, width = None\<rparr>"

text \<open>
  The value under \<open>'data_average'\<close>: the empty list at first, then either the list of the
  single dark-field frame or the array that \<open>average_df\<close> returned.
\<close>

datatype df_average = AvgList "ndarray list" | AvgArray ndarray

text \<open>
  One dictionary per role. \<open>dict_image\<close> and \<open>dict_ob\<close> have no \<open>'data_average'\<close> and
  \<open>dict_df\<close> has no \<open>'oscilation'\<close>; the record has every key, and a role never reads
  one it does not have. \<open>oscillation\<close> writes the key \<open>'oscillation'\<close>, which no
  dictionary has at first (the constructor spells it \<open>'oscilation'\<close>).
\<close>

record stack =
  data :: "ndarray list"
  oscilation :: "fval list"
  oscillation_key :: "fval list option"
  data_average :: df_average
  file_name :: "string list"
  shape :: shape_dict

record exec_process_status =
  st_df_correction :: bool
  st_normalization :: bool
  st_crop :: bool
  st_oscillation :: bool
  st_bin :: bool

text \<open>
  \<open>self.interferometry\<close>: each key holds the empty list (\<open>None\<close> here) until
  \<open>create_interferometry_images\<close> stores an array under it. That method and
  \<open>_create_reduction_matrix\<close> are not modelled: their results are those of float64
  cosines, sines and a numerical matrix inverse, which exact real numbers do not reproduce.
\<close>

record interferometry_dict =
  transmission :: "ndarray option"
  diff_phase_contrast :: "ndarray option"
  dark_field :: "ndarray option"
  visibility_map :: "ndarray option"

text \<open>
  The instance: \<open>self.data\<close> with its three roles, the run flags and the derived maps.
  \<open>self.shape\<close> and \<open>self.roi\<close> are never written after the constructor and are
  left out.
\<close>

record pipeline =
  sample :: stack
  ob :: stack
  df :: stack
  status :: exec_process_status
  interferometry :: interferometry_dict

definition empty_stack :: stack where
  "empty_stack = \<lparr>data = [], oscilation = [], oscillation_key = None,
                  data_average = AvgList [], file_name = [], shape = unknown_shape\<rparr>"

text \<open>\<open>__init__\<close>\<close>

definition init :: pipeline where
  "init = \<lparr>sample = empty_stack, ob = empty_stack, df = empty_stack,
           status = \<lparr>st_df_correction = False, st_normalization = False, st_crop = False,
                     st_oscillation = False, st_bin = False\<rparr>,
           interferometry = \<lparr>transmission = None, diff_phase_contrast = None,
                             dark_field = None, visibility_map = None\<rparr>\<rparr>"

datatype data_type = Sample | Ob | Df | OtherKey

text \<open>\<open>self.data[data_type]\<close>, read and written; \<open>None\<close> is the KeyError.\<close>

fun get_stack :: "data_type \<Rightarrow> pipeline \<Rightarrow> stack option" where
  "get_stack Sample s = Some (sample s)"
| "get_stack Ob s = Some (ob s)"
| "get_stack Df s = Some (df s)"
| "get_stack OtherKey s = None"

fun set_stack :: "data_type \<Rightarrow> stack \<Rightarrow> pipeline \<Rightarrow> pipeline" where
  "set_stack Sample k s = s\<lparr>sample := k\<rparr>"
| "set_stack Ob k s = s\<lparr>ob := k\<rparr>"
| "set_stack Df k s = s\<lparr>df := k\<rparr>"
| "set_stack OtherKey k s = s"

text \<open>What a stage returns: \<open>None\<close> (also by falling off its end) or \<open>True\<close>.\<close>

datatype retval = RNone | RTrue

section \<open>Dark-field correction\<close>

text \<open>
  The dark-field frame that \<open>__df_correction\<close> subtracts, computed and stored under
  \<open>'data_average'\<close> the first time. \<open>average_df\<close> of \<open>tapy._utilities\<close> is not part
  of the source at hand and is a parameter. With a single dark-field frame the value is the
  list \<open>self.data['df']['data']\<close> itself, not the frame. The test \<open>data_average == []\<close>
  is false for an array, as it is in the numpy releases that still have \<open>np.int\<close>.
\<close>

definition df_frame ::
  "(ndarray list \<Rightarrow> ndarray outcome) \<Rightarrow> pipeline \<Rightarrow> df_average outcome \<times> pipeline" where
  "df_frame average_df s =
     (if data_average (df s) = AvgList [] then
        (if length (data (df s)) > 1 then
           (case average_df (data (df s)) of
              Raises e \<Rightarrow> (Raises e, s)
            | Returns m \<Rightarrow> (Returns (AvgArray m), s\<lparr>df := (df s)\<lparr>data_average := AvgArray m\<rparr>\<rparr>))
         else (Returns (AvgList (data (df s))),
               s\<lparr>df := (df s)\<lparr>data_average := AvgList (data (df s))\<rparr>\<rparr>))
      else (Returns (data_average (df s)), s))"

text \<open>\<open>_data - _df\<close>, where \<open>_df\<close> is an array or a list of arrays.\<close>

definition sub_df :: "df_average \<Rightarrow> ndarray \<Rightarrow> ndarray outcome" where
  "sub_df d f =
     (case d of
        AvgArray m \<Rightarrow> np_sub f m
      | AvgList fs \<Rightarrow> (case np_asarray fs of Raises e \<Rightarrow> Raises e | Returns m \<Rightarrow> np_sub f m))"

text \<open>\<open>__df_correction\<close>\<close>

definition df_correction_role ::
  "(ndarray list \<Rightarrow> ndarray outcome) \<Rightarrow> data_type \<Rightarrow> pipeline \<Rightarrow> unit outcome \<times> pipeline" where
  "df_correction_role average_df data_type s =
     (if data_type \<noteq> Sample \<and> data_type \<noteq> Ob then (Raises KeyError, s)
      else if data (df s) = [] then (Returns (), s)
      else
        (case df_frame average_df s of
           (Raises e, s1) \<Rightarrow> (Raises e, s1)
         | (Returns d, s1) \<Rightarrow>
             (let k = (if data_type = Sample then sample s1 else ob s1)
              in if data k = [] then (Raises IndexError, s1)
                 else if shp (hd (data k)) \<noteq> shp (hd (data (df s1)))
                 then (Raises ShapeMismatch, s1)
                 else
                   (case comprehension (sub_df d) (data k) of
                      Raises e \<Rightarrow> (Raises e, s1)
                    | Returns fs \<Rightarrow> (Returns (), set_stack data_type (k\<lparr>data := fs\<rparr>) s1)))))"

text \<open>\<open>df_correction\<close>\<close>

definition df_correction ::
  "(ndarray list \<Rightarrow> ndarray outcome) \<Rightarrow> bool \<Rightarrow> pipeline \<Rightarrow> retval outcome \<times> pipeline" where
  "df_correction average_df force s =
     (if \<not> force \<and> st_df_correction (status s) then (Returns RNone, s)
      else
        (let s1 = s\<lparr>status := (status s)\<lparr>st_df_correction := True\<rparr>\<rparr>
         in case (if data (sample s1) \<noteq> []
                  then df_correction_role average_df Sample s1 else (Returns (), s1)) of
              (Raises e, s2) \<Rightarrow> (Raises e, s2)
            | (Returns _, s2) \<Rightarrow>
                (case (if data (ob s2) \<noteq> []
                       then df_correction_role average_df Ob s2 else (Returns (), s2)) of
                   (Raises e, s3) \<Rightarrow> (Raises e, s3)
                 | (Returns _, s3) \<Rightarrow> (Returns RNone, s3))))"

section \<open>Loading\<close>

text \<open>
  The collaborators of \<open>load\<close> that are not part of the source at hand: the file system,
  the three decoders of \<open>tapy.loader\<close>, \<open>get_sorted_list_images\<close> and \<open>os.path.join\<close>.
\<close>

record env =
  is_file :: "string \<Rightarrow> bool"
  load_fits :: "string \<Rightarrow> ndarray outcome"
  load_tiff :: "string \<Rightarrow> ndarray outcome"
  load_hdf :: "string \<Rightarrow> ndarray outcome"
  get_sorted_list_images :: "string \<Rightarrow> string list outcome"
  path_join :: "string \<Rightarrow> string \<Rightarrow> string"

definition lower_char :: "char \<Rightarrow> char" where
  "lower_char c =
     (let n = (of_char c :: nat) in if 65 \<le> n \<and> n \<le> 90 then char_of (n + 32) else c)"

definition lower :: "string \<Rightarrow> string" where
  "lower s = map lower_char s"

definition endswith :: "string \<Rightarrow> string \<Rightarrow> bool" where
  "endswith s suf \<longleftrightarrow> length suf \<le> length s \<and> drop (length s - length suf) s = suf"

text \<open>\<open>save_or_check_shape\<close>\<close>

definition save_or_check_shape :: "ndarray \<Rightarrow> data_type \<Rightarrow> pipeline \<Rightarrow> unit outcome \<times> pipeline" where
  "save_or_check_shape d data_type s =
     (case shp d of
        [h, w] \<Rightarrow>
          (case get_stack data_type s of
             None \<Rightarrow> (Raises KeyError, s)
           | Some k \<Rightarrow>
               if height (shape k) = None
               then (Returns (), set_stack data_type (k\<lparr>shape := \<lparr>height = Some h, width = Some w\<rparr>\<rparr>) s)
               else if width (shape k) \<noteq> Some w \<or> height (shape k) \<noteq> Some h
               then (Raises ShapeMismatch, s)
               else (Returns (), s))
      | _ \<Rightarrow> (Raises UnpackError, s))"

text \<open>\<open>load_file\<close>\<close>

definition load_file :: "env \<Rightarrow> string \<Rightarrow> data_type \<Rightarrow> pipeline \<Rightarrow> unit outcome \<times> pipeline" where
  "load_file e file data_type s =
     (if is_file e file then
        (case (if endswith (lower file) ''.fits'' then load_fits e file
               else if endswith (lower file) ''.tiff'' \<or> endswith (lower file) ''.tif''
               then load_tiff e file
               else if list_ex (endswith (lower file))
                         [''.hdf'', ''.h4'', ''.hdf4'', ''.he2'', ''h5'', ''.hdf5'', ''.he5'']
               then load_hdf e file
               else Raises UnsupportedFormat) of
           Raises err \<Rightarrow> (Raises err, s)
         | Returns d \<Rightarrow>
             (case get_stack data_type s of
                None \<Rightarrow> (Raises KeyError, s)
              | Some k \<Rightarrow>
                  save_or_check_shape d data_type
                    (set_stack data_type
                       (k\<lparr>data := data k @ [d], file_name := file_name k @ [file]\<rparr>) s)))
      else (Raises NotFound, s))"

text \<open>The loop of \<open>load\<close> over the files of a folder.\<close>

fun load_files :: "env \<Rightarrow> string list \<Rightarrow> data_type \<Rightarrow> pipeline \<Rightarrow> unit outcome \<times> pipeline" where
  "load_files e [] data_type s = (Returns (), s)"
| "load_files e (f # fs) data_type s =
     (case load_file e f data_type s of
        (Raises err, s1) \<Rightarrow> (Raises err, s1)
      | (Returns _, s1) \<Rightarrow> load_files e fs data_type s1)"

text \<open>\<open>load\<close>\<close>

definition load :: "env \<Rightarrow> string \<Rightarrow> string \<Rightarrow> data_type \<Rightarrow> pipeline \<Rightarrow> unit outcome \<times> pipeline" where
  "load e file folder data_type s =
     (if True \<in> set [st_df_correction (status s), st_normalization (status s),
                      st_crop (status s), st_oscillation (status s), st_bin (status s)]
      then (Raises OperationNotAllowed, s)
      else
        (case (if file \<noteq> [] then load_file e file data_type s else (Returns (), s)) of
           (Raises err, s1) \<Rightarrow> (Raises err, s1)
         | (Returns _, s1) \<Rightarrow>
             if folder \<noteq> [] then
               (case get_sorted_list_images e folder of
                  Raises err \<Rightarrow> (Raises err, s1)
                | Returns names \<Rightarrow> load_files e (map (path_join e folder) names) data_type s1)
             else (Returns (), s1)))"

section \<open>Regions of interest\<close>

text \<open>
  The class \<open>ROI\<close> of \<open>tapy.roi\<close> is not part of the source at hand; the pipeline reads
  its four integer fields only. A stage may be given \<open>None\<close>, an \<open>ROI\<close>, or an object
  of another type, of which only the truth value matters.
\<close>

record ROI =
  x0 :: int
  y0 :: int
  x1 :: int
  y1 :: int

datatype roi_arg = RoiNone | RoiObj ROI | NotRoi bool

fun truthy :: "roi_arg \<Rightarrow> bool" where
  "truthy RoiNone = False"
| "truthy (RoiObj r) = True"
| "truthy (NotRoi b) = b"

fun is_ROI :: "roi_arg \<Rightarrow> bool" where
  "is_ROI (RoiObj r) = True"
| "is_ROI _ = False"

text \<open>\<open>_data[_y0:_y1+1, _x0:_x1+1]\<close>\<close>

definition roi_slice :: "ROI \<Rightarrow> ndarray \<Rightarrow> ndarray outcome" where
  "roi_slice r a = slice2 (y0 r) (y1 r + 1) (x0 r) (x1 r + 1) a"

text \<open>\<open>__roi_fit_into_sample\<close>\<close>

definition roi_fit_into_sample :: "ROI \<Rightarrow> pipeline \<Rightarrow> bool outcome" where
  "roi_fit_into_sample r s =
     (case data (sample s) of
        [] \<Rightarrow> Raises IndexError
      | f # _ \<Rightarrow>
          (case shp f of
             [sample_height, sample_width] \<Rightarrow>
               if x0 r < 0 \<or> x1 r \<ge> int sample_width then Returns False
               else if y0 r < 0 \<or> y1 r \<ge> int sample_height then Returns False
               else Returns True
           | _ \<Rightarrow> Raises UnpackError))"

section \<open>Normalization, crop and oscillation\<close>

text \<open>\<open>data_loaded_have_matching_shape\<close>\<close>

definition data_loaded_have_matching_shape :: "pipeline \<Rightarrow> bool" where
  "data_loaded_have_matching_shape s =
     (if shape (sample s) \<noteq> shape (ob s) then False
      else if height (shape (df s)) \<noteq> None \<and> shape (sample s) \<noteq> shape (df s) then False
      else True)"

text \<open>\<open>_sample / np.mean(_sample[_y0:_y1+1, _x0:_x1+1])\<close>\<close>

definition normalize_frame :: "ROI \<Rightarrow> ndarray \<Rightarrow> ndarray outcome" where
  "normalize_frame r f =
     (case roi_slice r f of
        Raises e \<Rightarrow> Raises e
      | Returns part \<Rightarrow> Returns (div_scalar f (np_mean part)))"

text \<open>
  \<open>normalization\<close>. The two lists are built before either is stored, so an error in a
  list comprehension leaves both stacks as they were.
\<close>

definition normalization :: "roi_arg \<Rightarrow> bool \<Rightarrow> pipeline \<Rightarrow> retval outcome \<times> pipeline" where
  "normalization roi force s =
     (if \<not> force \<and> st_normalization (status s) then (Returns RNone, s)
      else
        (let s1 = s\<lparr>status := (status s)\<lparr>st_normalization := True\<rparr>\<rparr>
         in if data (sample s1) = [] then (Raises MissingData, s1)
            else if data (ob s1) = [] then (Raises MissingData, s1)
            else if length (file_name (sample s1)) \<noteq> length (file_name (ob s1))
            then (Raises CountMismatch, s1)
            else if \<not> data_loaded_have_matching_shape s1 then (Raises ShapeMismatch, s1)
            else
              (case roi of
                 RoiObj r \<Rightarrow>
                   (case roi_fit_into_sample r s1 of
                      Raises e \<Rightarrow> (Raises e, s1)
                    | Returns False \<Rightarrow> (Raises InvalidROI, s1)
                    | Returns True \<Rightarrow>
                        (case comprehension (normalize_frame r) (data (sample s1)) of
                           Raises e \<Rightarrow> (Raises e, s1)
                         | Returns new_sample \<Rightarrow>
                             (case comprehension (normalize_frame r) (data (ob s1)) of
                                Raises e \<Rightarrow> (Raises e, s1)
                              | Returns new_ob \<Rightarrow>
                                  (Returns RTrue,
                                   s1\<lparr>sample := (sample s1)\<lparr>data := new_sample\<rparr>,
                                      ob := (ob s1)\<lparr>data := new_ob\<rparr>\<rparr>))))
               | _ \<Rightarrow>
                   if truthy roi then (Raises InvalidROI, s1)
                   else (Returns RTrue,
                         s1\<lparr>sample := (sample s1)\<lparr>data := data (sample s1)\<rparr>,
                            ob := (ob s1)\<lparr>data := data (ob s1)\<rparr>\<rparr>))))"

text \<open>\<open>crop\<close>\<close>

definition crop :: "roi_arg \<Rightarrow> bool \<Rightarrow> pipeline \<Rightarrow> retval outcome \<times> pipeline" where
  "crop roi force s =
     (if data (sample s) = [] \<or> data (ob s) = [] then (Raises MissingData, s)
      else
        (case roi of
           RoiObj r \<Rightarrow>
             if \<not> force \<and> st_crop (status s) then (Returns RNone, s)
             else
               (let s1 = s\<lparr>status := (status s)\<lparr>st_crop := True\<rparr>\<rparr>
                in case comprehension (roi_slice r) (data (sample s1)) of
                     Raises e \<Rightarrow> (Raises e, s1)
                   | Returns new_sample \<Rightarrow>
                       (let s2 = s1\<lparr>sample := (sample s1)\<lparr>data := new_sample\<rparr>\<rparr>
                        in case comprehension (roi_slice r) (data (ob s2)) of
                             Raises e \<Rightarrow> (Raises e, s2)
                           | Returns new_ob \<Rightarrow>
                               (Returns RTrue, s2\<lparr>ob := (ob s2)\<lparr>data := new_ob\<rparr>\<rparr>)))
         | _ \<Rightarrow> (Raises InvalidROI, s)))"

text \<open>\<open>np.mean(_sample[y0:y1+1, x0:x1+1])\<close>\<close>

definition roi_mean :: "ROI \<Rightarrow> ndarray \<Rightarrow> fval outcome" where
  "roi_mean r f =
     (case roi_slice r f of Raises e \<Rightarrow> Raises e | Returns part \<Rightarrow> Returns (np_mean part))"

text \<open>
  \<open>oscillation\<close> called with \<open>plot=False\<close>. The branch of \<open>plot=True\<close> is not
  modelled: it runs after the two lists are stored, reads \<open>self.data['sample']['data'][0]\<close>,
  which raises IndexError on an empty sample stack, and calls the plotting library.
\<close>

definition oscillation :: "roi_arg \<Rightarrow> pipeline \<Rightarrow> retval outcome \<times> pipeline" where
  "oscillation roi s =
     (if truthy roi \<and> \<not> is_ROI roi then (Raises InvalidROI, s)
      else
        (case (case roi of
                 RoiObj r \<Rightarrow> comprehension (roi_mean r) (data (sample s))
               | _ \<Rightarrow> Returns (map np_mean (data (sample s)))) of
           Raises e \<Rightarrow> (Raises e, s)
         | Returns stack_sample_mean \<Rightarrow>
             (case (case roi of
                      RoiObj r \<Rightarrow> comprehension (roi_mean r) (data (ob s))
                    | _ \<Rightarrow> Returns (map np_mean (data (ob s)))) of
                Raises e \<Rightarrow> (Raises e, s)
              | Returns stack_ob_mean \<Rightarrow>
                  (Returns RNone,
                   s\<lparr>sample := (sample s)\<lparr>oscillation_key := Some stack_sample_mean\<rparr>,
                     ob := (ob s)\<lparr>oscillation_key := Some stack_ob_mean\<rparr>\<rparr>))))"

section \<open>Binning\<close>

text \<open>
  What \<open>binning\<close> may be given as \<open>bin\<close>: a Python int, a float, or a value that is no
  number.
\<close>

datatype bin_arg = BinInt int | BinFloat fval | BinOther

text \<open>Python's \<open>int\<close> of a finite float truncates toward zero.\<close>

definition trunc :: "real \<Rightarrow> int" where
  "trunc r = (if 0 \<le> r then \<lfloor>r\<rfloor> else \<lceil>r\<rceil>)"

text \<open>
  The first eight lines of \<open>binning\<close>: \<open>np.isnan(bin)\<close>, then \<open>np.int(bin)\<close> under a
  bare \<open>except\<close>, which catches the OverflowError of an infinity. A Python int is taken
  to fit into 64 bits; \<open>np.isnan\<close> raises TypeError for a larger one.
\<close>

fun bin_value :: "bin_arg \<Rightarrow> int outcome" where
  "bin_value BinOther = Raises TypeError"
| "bin_value (BinInt n) = Returns n"
| "bin_value (BinFloat NaN) = Raises InvalidArgument"
| "bin_value (BinFloat (Fin r)) = Returns (trunc r)"
| "bin_value (BinFloat _) = Raises InvalidArgument"

text \<open>
  \<open>_new_data.reshape(_nbr_height_bin, bin, _nbr_width_bin, bin).mean(axis=3).mean(axis=1)\<close>
  of the loop of \<open>__binning_data\<close>. numpy refuses a shape with a negative size (two of them
  are \<open>bin\<close>) and a shape of another number of elements.
\<close>

definition rebin :: "int \<Rightarrow> int \<Rightarrow> int \<Rightarrow> ndarray \<Rightarrow> ndarray outcome" where
  "rebin nbr_height_bin bin nbr_width_bin a =
     (if bin < 0 \<or> nbr_height_bin < 0 \<or> nbr_width_bin < 0 then Raises ReshapeError
      else if int (length (dat a)) \<noteq> nbr_height_bin * bin * nbr_width_bin * bin
      then Raises ReshapeError
      else
        (let nh = nat nbr_height_bin; b = nat bin; nw = nat nbr_width_bin
         in Returns
              \<lparr>shp = [nh, nw],
               dat = concat (map (\<lambda>i. map (\<lambda>j.
                        np_mean_list (map (\<lambda>q.
                          np_mean_list (map (\<lambda>p. dat a ! (((i * b + q) * nw + j) * b + p))
                                            [0..<b]))
                          [0..<b]))
                        [0..<nw]) [0..<nh])\<rparr>))"

definition rebin_frame :: "int \<Rightarrow> int \<Rightarrow> int \<Rightarrow> int \<Rightarrow> int \<Rightarrow> ndarray \<Rightarrow> ndarray outcome" where
  "rebin_frame new_height new_width nbr_height_bin bin nbr_width_bin f =
     (case slice2 0 new_height 0 new_width f of
        Raises e \<Rightarrow> Raises e
      | Returns part \<Rightarrow> rebin nbr_height_bin bin nbr_width_bin part)"

text \<open>
  \<open>__binning_data\<close>. \<open>height/bin\<close> divides two Python ints and raises for \<open>bin == 0\<close>;
  \<open>int(np.floor(height/bin))\<close> is the floor division and \<open>np.mod\<close> has the sign of the
  divisor, as \<open>div\<close> and \<open>mod\<close> on \<open>int\<close> have.
\<close>

definition binning_data :: "int \<Rightarrow> data_type \<Rightarrow> pipeline \<Rightarrow> unit outcome \<times> pipeline" where
  "binning_data bin data_type s =
     (case get_stack data_type s of
        None \<Rightarrow> (Raises KeyError, s)
      | Some k \<Rightarrow>
          (case data k of
             [] \<Rightarrow> (Raises IndexError, s)
           | f # _ \<Rightarrow>
               (case shp f of
                  [h, w] \<Rightarrow>
                    if bin = 0 then (Raises ZeroDivisionError, s)
                    else
                      (let nbr_height_bin = int h div bin;
                           new_height = (if int h mod bin \<noteq> 0 then nbr_height_bin * bin else int h);
                           nbr_width_bin = int w div bin;
                           new_width = (if int w mod bin \<noteq> 0 then nbr_width_bin * bin else int w)
                       in case comprehension
                                 (rebin_frame new_height new_width nbr_height_bin bin nbr_width_bin)
                                 (data k) of
                            Raises e \<Rightarrow> (Raises e, s)
                          | Returns data_rebinned \<Rightarrow>
                              (Returns (), set_stack data_type (k\<lparr>data := data_rebinned\<rparr>) s))
                | _ \<Rightarrow> (Raises UnpackError, s))))"

text \<open>\<open>binning\<close>\<close>

definition binning :: "bin_arg \<Rightarrow> bool \<Rightarrow> pipeline \<Rightarrow> retval outcome \<times> pipeline" where
  "binning bin force s =
     (case bin_value bin of
        Raises e \<Rightarrow> (Raises e, s)
      | Returns b \<Rightarrow>
          if \<not> force \<and> st_bin (status s) then (Returns RNone, s)
          else
            (let s1 = s\<lparr>status := (status s)\<lparr>st_bin := True\<rparr>\<rparr>
             in if data (sample s1) = [] then (Raises MissingData, s1)
                else if data (ob s1) = [] then (Raises MissingData, s1)
                else
                  (case binning_data b Sample s1 of
                     (Raises e, s2) \<Rightarrow> (Raises e, s2)
                   | (Returns _, s2) \<Rightarrow>
                       (case binning_data b Ob s2 of
                          (Raises e, s3) \<Rightarrow> (Raises e, s3)
                        | (Returns _, s3) \<Rightarrow> (Returns RNone, s3)))))"

section \<open>States for the examples\<close>

text \<open>
  The state that loading the frames \<open>fs\<close>, \<open>os\<close> and \<open>ds\<close> as sample, open beam and
  dark field leaves, when the frames of a role are 2-D and agree in shape.
\<close>

definition stack_of :: "ndarray list \<Rightarrow> stack" where
  "stack_of fs =
     empty_stack\<lparr>data := fs, file_name := replicate (length fs) ''frame.tif'',
                 shape := (case fs of
                             f # _ \<Rightarrow> (case shp f of
                                         [h, w] \<Rightarrow> \<lparr>height = Some h, width = Some w\<rparr>
                                       | _ \<Rightarrow> unknown_shape)
                           | [] \<Rightarrow> unknown_shape)\<rparr>"

definition loaded :: "ndarray list \<Rightarrow> ndarray list \<Rightarrow> ndarray list \<Rightarrow> pipeline" where
  "loaded fs os ds = init\<lparr>sample := stack_of fs, ob := stack_of os, df := stack_of ds\<rparr>"

text \<open>An \<open>average_df\<close> for the examples that never call it.\<close>

definition no_average :: "ndarray list \<Rightarrow> ndarray outcome" where
  "no_average fs = Raises LoaderError"

text \<open>A 2 by 2 frame, row by row.\<close>

definition frame22 :: "real \<Rightarrow> real \<Rightarrow> real \<Rightarrow> real \<Rightarrow> ndarray" where
  "frame22 a b c d = \<lparr>shp = [2, 2], dat = [Fin a, Fin b, Fin c, Fin d]\<rparr>"

text \<open>
  A file system in which every path is a file; a FITS file decodes to a 1 by 2 frame, a
  TIFF file to a 2 by 2 frame and an HDF file to a 3 by 3 frame.
\<close>

definition demo_env :: env where
  "demo_env =
     \<lparr>is_file = (\<lambda>f. True),
      load_fits = (\<lambda>f. Returns (uniform 1 2 (Fin 1))),
      load_tiff = (\<lambda>f. Returns (uniform 2 2 (Fin 1))),
      load_hdf = (\<lambda>f. Returns (uniform 3 3 (Fin 1))),
      get_sorted_list_images = (\<lambda>d. Returns []),
      path_join = (\<lambda>d f. d @ ''/'' @ f)\<rparr>"

section \<open>Slices and list comprehensions\<close>

lemma length_py_slice:
  "0 \<le> a \<Longrightarrow> a \<le> b \<Longrightarrow> b \<le> int (length xs) \<Longrightarrow> length (py_slice a b xs) = nat (b - a)"
proof -
  assume a: "0 \<le> a" "a \<le> b" "b \<le> int (length xs)"
  then have "slice_bound (length xs) a = nat a" "slice_bound (length xs) b = nat b"
    by (auto simp add: slice_bound_def)
  moreover from a have "min (length xs - nat a) (nat b - nat a) = nat (b - a)" by linarith
  ultimately show ?thesis by (simp add: py_slice_def Let_def)
qed

lemma length_split_rows: "length (split_rows m n xs) = m"
  by (simp add: split_rows_def)

lemma comprehension_all:
  "comprehension f xs = Returns ys \<Longrightarrow> list_all2 (\<lambda>x y. f x = Returns y) xs ys"
proof (induction xs arbitrary: ys)
  case Nil
  then show ?case by simp
next
  case (Cons x xs)
  then show ?case by (auto split: outcome.splits)
qed

section \<open>Arrays stay well formed\<close>

lemma wf_uniform: "wf_array (uniform h w v)"
  by (simp add: wf_array_def uniform_def)

lemma wf_div_scalar: "wf_array a \<Longrightarrow> wf_array (div_scalar a m)"
  by (simp add: wf_array_def div_scalar_def)

lemma wf_np_binop: "np_binop f a b = Returns c \<Longrightarrow> wf_array c"
  by (auto simp add: np_binop_def wf_array_def split: option.splits)

lemma length_concat_const:
  "\<forall>x \<in> set xs. length x = n \<Longrightarrow> length (concat xs) = length xs * n"
  by (induction xs) simp_all

lemma wf_rebin: "rebin nbh b nbw a = Returns c \<Longrightarrow> wf_array c"
proof -
  assume "rebin nbh b nbw a = Returns c"
  then obtain g where c: "shp c = [nat nbh, nat nbw]"
    "dat c = concat (map (\<lambda>i. map (g i) [0..<nat nbw]) [0..<nat nbh])"
    by (auto simp add: rebin_def Let_def split: if_splits)
  have "length (dat c) = nat nbh * nat nbw"
    unfolding c(2) using length_concat_const [of "map (\<lambda>i. map (g i) [0..<nat nbw]) [0..<nat nbh]" "nat nbw"]
    by simp
  with c(1) show ?thesis by (simp add: wf_array_def)
qed

lemma length_py_slice_cong:
  "length xs = length ys \<Longrightarrow> length (py_slice a b xs) = length (py_slice a b ys)"
  by (simp add: py_slice_def Let_def)

lemma in_py_slice: "x \<in> set (py_slice a b xs) \<Longrightarrow> x \<in> set xs"
  unfolding py_slice_def Let_def
  by (meson in_set_takeD in_set_dropD)

lemma split_rows_block:
  assumes "length xs = m * n" "r \<in> set (split_rows m n xs)"
  shows "length r = n"
proof -
  from assms(2) obtain i where i: "i < m" "r = take n (drop (i * n) xs)"
    by (auto simp add: split_rows_def)
  from i(1) have "1 * n \<le> (m - i) * n" by (intro mult_le_mono1) simp
  then have "n \<le> m * n - i * n" by (simp add: diff_mult_distrib)
  with i(2) assms(1) show ?thesis by simp
qed

lemma wf_slice2:
  assumes "wf_array a" "slice2 r0 r1 c0 c1 a = Returns c"
  shows "wf_array c"
proof -
  from assms(2) obtain d0 d1 rest where s: "shp a = d0 # d1 # rest"
    by (cases "shp a"; simp add: slice2_def; rename_tac x xs; case_tac xs; simp)
  let ?p = "prod_list rest"
  let ?rows = "py_slice r0 r1 (split_rows d0 (d1 * ?p) (dat a))"
  let ?l = "length (py_slice c0 c1 [0..<d1])"
  let ?cell = "\<lambda>r. py_slice c0 c1 (split_rows d1 ?p r)"
  from assms(2) s have c: "shp c = length ?rows # ?l # rest"
    "dat c = concat (map concat (map ?cell ?rows))"
    by (auto simp add: slice2_def Let_def)
  from assms(1) s have la: "length (dat a) = d0 * (d1 * ?p)" by (simp add: wf_array_def)
  have cell: "\<And>r. r \<in> set ?rows \<Longrightarrow> length (concat (?cell r)) = ?l * ?p"
  proof -
    fix r assume "r \<in> set ?rows"
    then have "r \<in> set (split_rows d0 (d1 * ?p) (dat a))" by (rule in_py_slice)
    with la have lr: "length r = d1 * ?p" by (rule split_rows_block)
    have "\<forall>x \<in> set (?cell r). length x = ?p"
      using split_rows_block [OF lr] in_py_slice [of _ c0 c1 "split_rows d1 ?p r"] by blast
    then have "length (concat (?cell r)) = length (?cell r) * ?p"
      by (rule length_concat_const)
    moreover have "length (?cell r) = ?l"
      by (rule length_py_slice_cong) (simp add: split_rows_def)
    ultimately show "length (concat (?cell r)) = ?l * ?p" by simp
  qed
  have "length (dat c) = length ?rows * (?l * ?p)"
    unfolding c(2)
    using length_concat_const [of "map concat (map ?cell ?rows)" "?l * ?p"] cell by simp
  with c(1) show ?thesis by (simp add: wf_array_def)
qed

section \<open>Properties of the dark-field correction\<close>

lemma df_frame_status: "status (snd (df_frame avg s)) = status s"
  by (simp add: df_frame_def split: outcome.splits)

lemma df_correction_role_status: "status (snd (df_correction_role avg t s)) = status s"
proof (cases "df_frame avg s")
  case (Pair r s1)
  with df_frame_status [of avg s] have "status s1 = status s" by simp
  with Pair show ?thesis
    by (cases t) (simp_all add: df_correction_role_def Let_def split: outcome.splits)
qed

lemma df_correction_sets_flag: "st_df_correction (status (snd (df_correction avg force s)))"
proof (cases "\<not> force \<and> st_df_correction (status s)")
  case True
  then show ?thesis by (simp add: df_correction_def)
next
  case False
  define s1 where "s1 = s\<lparr>status := (status s)\<lparr>st_df_correction := True\<rparr>\<rparr>"
  have f1: "st_df_correction (status s1)" by (simp add: s1_def)
  obtain r2 s2 where p2:
    "(if data (sample s1) \<noteq> [] then df_correction_role avg Sample s1 else (Returns (), s1))
       = (r2, s2)"
    by (cases "(if data (sample s1) \<noteq> [] then df_correction_role avg Sample s1
                else (Returns (), s1))") auto
  have f2: "st_df_correction (status s2)"
    using p2 f1 df_correction_role_status [of avg Sample s1] by (auto split: if_splits)
  obtain r3 s3 where p3:
    "(if data (ob s2) \<noteq> [] then df_correction_role avg Ob s2 else (Returns (), s2)) = (r3, s3)"
    by (cases "(if data (ob s2) \<noteq> [] then df_correction_role avg Ob s2
                else (Returns (), s2))") auto
  have f3: "st_df_correction (status s3)"
    using p3 f2 df_correction_role_status [of avg Ob s2] by (auto split: if_splits)
  show ?thesis
    using False p2 p3 f2 f3 unfolding df_correction_def Let_def s1_def [symmetric]
    by (auto split: outcome.splits)
qed

text \<open>
  Claim C8. Whatever the state and whatever the first call of \<open>df_correction\<close> did (also
  when it was forced, and when it raised), a following call with \<open>force=False\<close> returns
  \<open>None\<close> without an error and leaves the whole state, and so every sample and
  open-beam frame, as the first call left it.
\<close>

theorem df_correction_twice:
  "df_correction avg False (snd (df_correction avg force s)) =
     (Returns RNone, snd (df_correction avg force s))"
  using df_correction_sets_flag [of avg force s] by (simp add: df_correction_def)

text \<open>
  One sample frame \<open>[[5, 5]]\<close> and one dark-field frame \<open>[[2, 2]]\<close>: the first call
  subtracts, the second leaves the frame of threes. The frame has a leading axis of size 1
  after the subtraction, that of the one-element list \<open>self.data['df']['data']\<close> which
  numpy makes an array of.
\<close>

theorem df_correction_twice_witness:
  "data (sample (snd (df_correction no_average False
      (loaded [uniform 1 2 (Fin 5)] [] [uniform 1 2 (Fin 2)]))))
     = [\<lparr>shp = [1, 1, 2], dat = [Fin 3, Fin 3]\<rparr>]
   \<and> df_correction no_average False (snd (df_correction no_average False
        (loaded [uniform 1 2 (Fin 5)] [] [uniform 1 2 (Fin 2)])))
     = (Returns RNone, snd (df_correction no_average False
        (loaded [uniform 1 2 (Fin 5)] [] [uniform 1 2 (Fin 2)])))"
proof
  show "data (sample (snd (df_correction no_average False
      (loaded [uniform 1 2 (Fin 5)] [] [uniform 1 2 (Fin 2)]))))
     = [\<lparr>shp = [1, 1, 2], dat = [Fin 3, Fin 3]\<rparr>]"
    by code_simp
  show "df_correction no_average False (snd (df_correction no_average False
        (loaded [uniform 1 2 (Fin 5)] [] [uniform 1 2 (Fin 2)])))
     = (Returns RNone, snd (df_correction no_average False
        (loaded [uniform 1 2 (Fin 5)] [] [uniform 1 2 (Fin 2)])))"
    by (rule df_correction_twice)
qed



section \<open>Loading after a stage\<close>

lemma load_refused:
  "st_df_correction (status s) \<or> st_normalization (status s) \<or> st_crop (status s)
     \<or> st_oscillation (status s) \<or> st_bin (status s)
   \<Longrightarrow> load e file folder t s = (Raises OperationNotAllowed, s)"
  by (auto simp add: load_def)

lemma normalization_sets_flag:
  "st_normalization (status (snd (normalization roi force s)))"
  by (simp add: normalization_def Let_def split: roi_arg.splits outcome.splits bool.splits)

lemma crop_sets_flag:
  "fst (crop roi force s) = Returns r \<Longrightarrow> st_crop (status (snd (crop roi force s)))"
  by (auto simp add: crop_def Let_def split: roi_arg.splits outcome.splits if_splits)

lemma binning_data_status: "status (snd (binning_data b t s)) = status s"
  by (cases t)
     (simp_all add: binning_data_def Let_def split: list.splits outcome.splits option.splits)

lemma binning_sets_flag:
  assumes "fst (binning b force s) = Returns r"
  shows "st_bin (status (snd (binning b force s)))"
proof (cases "bin_value b")
  case (Raises e)
  with assms show ?thesis by (simp add: binning_def)
next
  case (Returns n)
  define s1 where "s1 = s\<lparr>status := (status s)\<lparr>st_bin := True\<rparr>\<rparr>"
  obtain r2 s2 where p2: "binning_data n Sample s1 = (r2, s2)"
    by (cases "binning_data n Sample s1") auto
  obtain r3 s3 where p3: "binning_data n Ob s2 = (r3, s3)"
    by (cases "binning_data n Ob s2") auto
  have f2: "st_bin (status s2)"
    using p2 binning_data_status [of n Sample s1] by (simp add: s1_def)
  have f3: "st_bin (status s3)"
    using p3 f2 binning_data_status [of n Ob s2] by simp
  show ?thesis
    using Returns p2 p3 f2 f3 unfolding binning_def Let_def s1_def [symmetric]
    by (auto simp add: s1_def split: outcome.splits)
qed

text \<open>
  The four stages that set their flag: once one of them has run (for \<open>crop\<close> and
  \<open>binning\<close>: has returned), \<open>load\<close> raises OperationNotAllowed and loads nothing.
\<close>

lemma load_after_flagged_stage:
  "load e file folder t (snd (df_correction avg force s)) =
     (Raises OperationNotAllowed, snd (df_correction avg force s))"
  "load e file folder t (snd (normalization roi force s)) =
     (Raises OperationNotAllowed, snd (normalization roi force s))"
  "fst (crop roi force s) = Returns r \<Longrightarrow>
     load e file folder t (snd (crop roi force s)) =
       (Raises OperationNotAllowed, snd (crop roi force s))"
  "fst (binning b force s) = Returns r \<Longrightarrow>
     load e file folder t (snd (binning b force s)) =
       (Raises OperationNotAllowed, snd (binning b force s))"
  using df_correction_sets_flag [of avg force s] normalization_sets_flag [of roi force s]
    crop_sets_flag [of roi force s r] binning_sets_flag [of b force s r]
  by (simp_all add: load_refused)

lemma oscillation_status: "status (snd (oscillation roi s)) = status s"
  by (simp add: oscillation_def split: roi_arg.splits outcome.splits)

text \<open>
  Claim C3 does not hold of \<open>oscillation\<close>, the stage the docstring of \<open>load\<close> names
  first: \<open>oscillation\<close> never writes \<open>__exec_process_status\<close>. Here it runs on a pipeline
  with one sample and one open-beam frame and returns; the \<open>load\<close> that follows is not
  refused and appends a second sample frame.
\<close>

theorem load_after_oscillation:
  "fst (oscillation RoiNone (loaded [frame22 1 2 3 4] [frame22 5 6 7 8] [])) = Returns RNone
   \<and> oscillation_key (sample (snd (oscillation RoiNone
         (loaded [frame22 1 2 3 4] [frame22 5 6 7 8] [])))) = Some [Fin (5 / 2)]
   \<and> fst (load demo_env ''next.tif'' [] Sample
         (snd (oscillation RoiNone (loaded [frame22 1 2 3 4] [frame22 5 6 7 8] []))))
       = Returns ()
   \<and> data (sample (snd (load demo_env ''next.tif'' [] Sample
         (snd (oscillation RoiNone (loaded [frame22 1 2 3 4] [frame22 5 6 7 8] []))))))
       = [frame22 1 2 3 4, uniform 2 2 (Fin 1)]"
  by code_simp

section \<open>The region of interest in crop and oscillation\<close>

text \<open>
  Claim C5 holds of \<open>normalization\<close> only, which calls \<open>__roi_fit_into_sample\<close>;
  \<open>crop\<close> and \<open>oscillation\<close> never do. With 2 by 2 frames and the region
  \<open>x0 = 1, y0 = 0, x1 = 5, y1 = 5\<close>, which reaches beyond both sides, \<open>normalization\<close>
  raises InvalidROI, but \<open>crop\<close> returns \<open>True\<close> and keeps the part of each frame that
  the clamped slices select, and \<open>oscillation\<close> returns the means of that part.
\<close>

theorem crop_roi_beyond_frame:
  "fst (normalization (RoiObj \<lparr>x0 = 1, y0 = 0, x1 = 5, y1 = 5\<rparr>) False
         (loaded [frame22 1 2 3 4] [frame22 5 6 7 8] [])) = Raises InvalidROI
   \<and> fst (crop (RoiObj \<lparr>x0 = 1, y0 = 0, x1 = 5, y1 = 5\<rparr>) False
         (loaded [frame22 1 2 3 4] [frame22 5 6 7 8] [])) = Returns RTrue
   \<and> data (sample (snd (crop (RoiObj \<lparr>x0 = 1, y0 = 0, x1 = 5, y1 = 5\<rparr>) False
         (loaded [frame22 1 2 3 4] [frame22 5 6 7 8] []))))
       = [\<lparr>shp = [2, 1], dat = [Fin 2, Fin 4]\<rparr>]
   \<and> data (ob (snd (crop (RoiObj \<lparr>x0 = 1, y0 = 0, x1 = 5, y1 = 5\<rparr>) False
         (loaded [frame22 1 2 3 4] [frame22 5 6 7 8] []))))
       = [\<lparr>shp = [2, 1], dat = [Fin 6, Fin 8]\<rparr>]
   \<and> fst (oscillation (RoiObj \<lparr>x0 = 1, y0 = 0, x1 = 5, y1 = 5\<rparr>)
         (loaded [frame22 1 2 3 4] [frame22 5 6 7 8] [])) = Returns RNone
   \<and> oscillation_key (sample (snd (oscillation (RoiObj \<lparr>x0 = 1, y0 = 0, x1 = 5, y1 = 5\<rparr>)
         (loaded [frame22 1 2 3 4] [frame22 5 6 7 8] [])))) = Some [Fin 3]"
  by code_simp

section \<open>The state after an error\<close>

text \<open>
  \<open>crop\<close> checks before it writes: when it raises one of its own errors, the state is
  the one it was given. So does \<open>oscillation\<close> when it is called with \<open>plot=False\<close>,
  the call that is modelled; with \<open>plot=True\<close> the source raises IndexError on an empty
  sample stack after it has stored the two lists.
\<close>

lemma comprehension_roi_slice_error:
  "comprehension (roi_slice r) fs = Raises e \<Longrightarrow> e = IndexError"
proof (induction fs)
  case Nil
  then show ?case by simp
next
  case (Cons f fs)
  then show ?case
    by (auto simp add: roi_slice_def slice2_def Let_def
             split: outcome.splits list.splits)
qed

lemma crop_own_error_keeps_state:
  assumes "crop roi force s = (Raises e, s')" and "e = MissingData \<or> e = InvalidROI"
  shows "s' = s"
proof (cases "data (sample s) = [] \<or> data (ob s) = [] \<or> \<not> is_ROI roi")
  case True
  with assms(1) show ?thesis
    by (cases roi) (auto simp add: crop_def split: if_splits)
next
  case False
  then obtain r where r: "roi = RoiObj r" by (cases roi) auto
  from assms r False show ?thesis
    by (auto simp add: crop_def Let_def split: if_splits outcome.splits
             dest: comprehension_roi_slice_error)
qed

lemma oscillation_error_keeps_state:
  "oscillation roi s = (Raises e, s') \<Longrightarrow> s' = s"
  by (auto simp add: oscillation_def split: if_splits outcome.splits roi_arg.splits)

text \<open>
  \<open>normalization\<close> changes nothing but its flag when it raises, but the flag it does
  change.
\<close>

lemma normalization_error_state:
  "normalization roi force s = (Raises e, s')
   \<Longrightarrow> s' = s\<lparr>status := (status s)\<lparr>st_normalization := True\<rparr>\<rparr>"
  by (auto simp add: normalization_def Let_def
           split: if_splits roi_arg.splits outcome.splits bool.splits)

text \<open>
  Claim C2 does not hold of the other stages, nor of \<open>load_file\<close>.
  \<open>normalization\<close> and \<open>binning\<close> set their run flag before they check that data are
  loaded: on a new pipeline both raise MissingData and leave their flag set.
  \<open>df_correction\<close> has corrected the sample (the one-element list of dark-field frames
  that it subtracts adds a leading axis) and stored the dark-field average when it finds
  that the open-beam frame has another shape than the dark field. \<open>load_file\<close> appends
  the frame and its name before \<open>save_or_check_shape\<close> compares the shape: a 2 by 2 frame
  loaded after a 1 by 2 frame raises ShapeMismatch and stays in the stack.
\<close>

theorem error_after_mutation:
  "normalization RoiNone False init =
     (Raises MissingData, init\<lparr>status := (status init)\<lparr>st_normalization := True\<rparr>\<rparr>)
   \<and> init\<lparr>status := (status init)\<lparr>st_normalization := True\<rparr>\<rparr> \<noteq> init
   \<and> binning (BinInt 2) False init =
       (Raises MissingData, init\<lparr>status := (status init)\<lparr>st_bin := True\<rparr>\<rparr>)
   \<and> init\<lparr>status := (status init)\<lparr>st_bin := True\<rparr>\<rparr> \<noteq> init
   \<and> fst (df_correction no_average False
         (loaded [frame22 1 2 3 4] [uniform 1 2 (Fin 2)] [frame22 1 1 1 1]))
       = Raises ShapeMismatch
   \<and> data (sample (snd (df_correction no_average False
         (loaded [frame22 1 2 3 4] [uniform 1 2 (Fin 2)] [frame22 1 1 1 1]))))
       = [\<lparr>shp = [1, 2, 2], dat = [Fin 0, Fin 1, Fin 2, Fin 3]\<rparr>]
   \<and> data_average (df (snd (df_correction no_average False
         (loaded [frame22 1 2 3 4] [uniform 1 2 (Fin 2)] [frame22 1 1 1 1]))))
       = AvgList [frame22 1 1 1 1]
   \<and> fst (load_file demo_env ''b.tif'' Sample (snd (load_file demo_env ''a.fits'' Sample init)))
       = Raises ShapeMismatch
   \<and> data (sample (snd (load_file demo_env ''b.tif'' Sample
         (snd (load_file demo_env ''a.fits'' Sample init)))))
       = [uniform 1 2 (Fin 1), uniform 2 2 (Fin 1)]
   \<and> file_name (sample (snd (load_file demo_env ''b.tif'' Sample
         (snd (load_file demo_env ''a.fits'' Sample init)))))
       = [''a.fits'', ''b.tif'']"
  by code_simp

section \<open>The bin size\<close>

text \<open>
  Claim C6 as stated does not hold: 2.5 is no positive integer, but \<open>binning\<close> does
  not refuse it. \<open>np.int\<close> makes 2 of it, and the 2 by 2 frames are binned to their means.
\<close>

theorem binning_float_counterexample:
  "fst (binning (BinFloat (Fin (5 / 2))) False (loaded [frame22 1 2 3 4] [frame22 5 6 7 8] []))
     = Returns RNone
   \<and> fst (binning (BinFloat (Fin (5 / 2))) False (loaded [frame22 1 2 3 4] [frame22 5 6 7 8] []))
     \<noteq> Raises InvalidArgument
   \<and> data (sample (snd (binning (BinFloat (Fin (5 / 2))) False
         (loaded [frame22 1 2 3 4] [frame22 5 6 7 8] []))))
     = [\<lparr>shp = [1, 1], dat = [Fin (5 / 2)]\<rparr>]
   \<and> data (ob (snd (binning (BinFloat (Fin (5 / 2))) False
         (loaded [frame22 1 2 3 4] [frame22 5 6 7 8] []))))
     = [\<lparr>shp = [1, 1], dat = [Fin (13 / 2)]\<rparr>]"
  by code_simp

text \<open>
  Claim C6, amended. \<open>binning\<close> raises InvalidArgument, and leaves the whole state as it
  was, when the bin size is a not-a-number or an infinity. A finite float is not refused: it
  is truncated toward zero and \<open>binning\<close> goes on as with that integer.
\<close>

theorem binning_non_number:
  "binning (BinFloat NaN) force s = (Raises InvalidArgument, s)
   \<and> binning (BinFloat PInf) force s = (Raises InvalidArgument, s)
   \<and> binning (BinFloat NInf) force s = (Raises InvalidArgument, s)
   \<and> binning (BinFloat (Fin r)) force s = binning (BinInt (trunc r)) force s"
  by (simp add: binning_def)

theorem binning_non_number_witness:
  "binning (BinFloat NaN) False (loaded [frame22 1 2 3 4] [frame22 5 6 7 8] [])
     = (Raises InvalidArgument, loaded [frame22 1 2 3 4] [frame22 5 6 7 8] [])
   \<and> binning (BinFloat (Fin (5 / 2))) False (loaded [frame22 1 2 3 4] [frame22 5 6 7 8] [])
     = binning (BinInt 2) False (loaded [frame22 1 2 3 4] [frame22 5 6 7 8] [])"
proof -
  have "trunc (5 / 2) = 2" by (simp add: trunc_def)
  with binning_non_number [of False "loaded [frame22 1 2 3 4] [frame22 5 6 7 8] []" "5 / 2"]
  show ?thesis by simp
qed

text \<open>
  Zero and the negative integers are not checked either. They fail in \<open>__binning_data\<close>,
  after the run flag is set: zero in the division \<open>height/bin\<close>, a negative size in
  \<open>reshape\<close>.
\<close>

lemma binning_zero_or_negative:
  "binning (BinInt 0) False (loaded [frame22 1 2 3 4] [frame22 5 6 7 8] []) =
     (Raises ZeroDivisionError,
      (loaded [frame22 1 2 3 4] [frame22 5 6 7 8] [])
        \<lparr>status := (status (loaded [frame22 1 2 3 4] [frame22 5 6 7 8] []))\<lparr>st_bin := True\<rparr>\<rparr>)"
  "binning (BinInt (- 2)) False (loaded [frame22 1 2 3 4] [frame22 5 6 7 8] []) =
     (Raises ReshapeError,
      (loaded [frame22 1 2 3 4] [frame22 5 6 7 8] [])
        \<lparr>status := (status (loaded [frame22 1 2 3 4] [frame22 5 6 7 8] []))\<lparr>st_bin := True\<rparr>\<rparr>)"
  by code_simp+

section \<open>The stored shape after crop and binning\<close>

lemma crop_keeps_shape:
  "shape (sample (snd (crop roi force s))) = shape (sample s)
   \<and> shape (ob (snd (crop roi force s))) = shape (ob s)
   \<and> shape (df (snd (crop roi force s))) = shape (df s)"
  by (simp add: crop_def Let_def split: roi_arg.splits outcome.splits)

lemma binning_data_keeps_shape:
  "shape (sample (snd (binning_data b t s))) = shape (sample s)
   \<and> shape (ob (snd (binning_data b t s))) = shape (ob s)
   \<and> shape (df (snd (binning_data b t s))) = shape (df s)"
  by (cases t)
     (simp_all add: binning_data_def Let_def split: list.splits outcome.splits option.splits)

lemma binning_keeps_shape:
  "shape (sample (snd (binning b force s))) = shape (sample s)
   \<and> shape (ob (snd (binning b force s))) = shape (ob s)
   \<and> shape (df (snd (binning b force s))) = shape (df s)"
proof (cases "bin_value b")
  case (Raises e)
  then show ?thesis by (simp add: binning_def)
next
  case (Returns n)
  define s1 where "s1 = s\<lparr>status := (status s)\<lparr>st_bin := True\<rparr>\<rparr>"
  obtain r2 s2 where p2: "binning_data n Sample s1 = (r2, s2)"
    by (cases "binning_data n Sample s1") auto
  obtain r3 s3 where p3: "binning_data n Ob s2 = (r3, s3)"
    by (cases "binning_data n Ob s2") auto
  have f2: "shape (sample s2) = shape (sample s) \<and> shape (ob s2) = shape (ob s)
            \<and> shape (df s2) = shape (df s)"
    using p2 binning_data_keeps_shape [of n Sample s1] by (simp add: s1_def)
  have f3: "shape (sample s3) = shape (sample s) \<and> shape (ob s3) = shape (ob s)
            \<and> shape (df s3) = shape (df s)"
    using p3 f2 binning_data_keeps_shape [of n Ob s2] by simp
  show ?thesis
    using Returns p2 p3 f2 f3 unfolding binning_def Let_def s1_def [symmetric]
    by (auto simp add: s1_def split: outcome.splits)
qed

lemma roi_slice_shape:
  assumes "shp f = [h, w]"
    and "0 \<le> y0 r" "y0 r \<le> y1 r" "y1 r < int h" "0 \<le> x0 r" "x0 r \<le> x1 r" "x1 r < int w"
  shows "\<exists>g. roi_slice r f = Returns g \<and> shp g = [nat (y1 r - y0 r + 1), nat (x1 r - x0 r + 1)]"
proof -
  have e: "y1 r + 1 - y0 r = y1 r - y0 r + 1" "x1 r + 1 - x0 r = x1 r - x0 r + 1" by simp_all
  have "length (py_slice (y0 r) (y1 r + 1) (split_rows h (w * 1) (dat f)))
          = nat (y1 r - y0 r + 1)"
    using assms length_py_slice [of "y0 r" "y1 r + 1" "split_rows h (w * 1) (dat f)"] e
    by (simp add: length_split_rows)
  moreover have "length (py_slice (x0 r) (x1 r + 1) [0..<w]) = nat (x1 r - x0 r + 1)"
    using assms length_py_slice [of "x0 r" "x1 r + 1" "[0..<w]"] e by simp
  ultimately show ?thesis
    using assms(1) by (simp add: roi_slice_def slice2_def Let_def)
qed

lemma comprehension_roi_slice_shapes:
  assumes "comprehension (roi_slice r) fs = Returns gs"
    and "\<forall>f \<in> set fs. shp f = [h, w]"
    and "0 \<le> y0 r" "y0 r \<le> y1 r" "y1 r < int h" "0 \<le> x0 r" "x0 r \<le> x1 r" "x1 r < int w"
  shows "\<forall>g \<in> set gs. shp g = [nat (y1 r - y0 r + 1), nat (x1 r - x0 r + 1)]"
proof -
  from comprehension_all [OF assms(1)]
  have l: "list_all2 (\<lambda>x y. roi_slice r x = Returns y) fs gs" .
  show ?thesis
  proof
    fix g assume "g \<in> set gs"
    then obtain i where i: "i < length gs" "gs ! i = g" by (auto simp add: in_set_conv_nth)
    with l have "i < length fs" "roi_slice r (fs ! i) = Returns g"
      by (auto simp add: list_all2_conv_all_nth)
    moreover from this assms(2) have "shp (fs ! i) = [h, w]" by simp
    ultimately show "shp g = [nat (y1 r - y0 r + 1), nat (x1 r - x0 r + 1)]"
      using roi_slice_shape [of "fs ! i" h w r] assms(3-) by auto
  qed
qed

lemma crop_frame_shapes:
  assumes "crop (RoiObj r) force s = (Returns RTrue, s')"
    and "\<forall>f \<in> set (data (sample s) @ data (ob s)). shp f = [h, w]"
    and "0 \<le> y0 r" "y0 r \<le> y1 r" "y1 r < int h" "0 \<le> x0 r" "x0 r \<le> x1 r" "x1 r < int w"
  shows "\<forall>g \<in> set (data (sample s') @ data (ob s')).
           shp g = [nat (y1 r - y0 r + 1), nat (x1 r - x0 r + 1)]"
proof -
  from assms(1) obtain new_sample new_ob where
    c: "comprehension (roi_slice r) (data (sample s)) = Returns new_sample"
       "comprehension (roi_slice r) (data (ob s)) = Returns new_ob"
       "data (sample s') = new_sample" "data (ob s') = new_ob"
    by (auto simp add: crop_def Let_def split: if_splits outcome.splits)
  from assms(2) have a: "\<forall>f \<in> set (data (sample s)). shp f = [h, w]"
    "\<forall>f \<in> set (data (ob s)). shp f = [h, w]" by auto
  from comprehension_roi_slice_shapes [OF c(1) a(1) assms(3-)]
       comprehension_roi_slice_shapes [OF c(2) a(2) assms(3-)] c(3,4)
  show ?thesis by auto
qed

lemma rebin_frame_shape:
  "rebin_frame nh' nw' nbh b nbw f = Returns g \<Longrightarrow> shp g = [nat nbh, nat nbw]"
  by (auto simp add: rebin_frame_def rebin_def Let_def split: outcome.splits if_splits)

lemma comprehension_rebin_shapes:
  assumes "comprehension (rebin_frame nh' nw' nbh b nbw) fs = Returns gs"
  shows "\<forall>g \<in> set gs. shp g = [nat nbh, nat nbw]"
proof
  fix g assume "g \<in> set gs"
  then obtain i where i: "i < length gs" "gs ! i = g" by (auto simp add: in_set_conv_nth)
  with comprehension_all [OF assms]
  have "rebin_frame nh' nw' nbh b nbw (fs ! i) = Returns g"
    by (auto simp add: list_all2_conv_all_nth)
  then show "shp g = [nat nbh, nat nbw]" by (rule rebin_frame_shape)
qed

lemma binning_data_frame_shapes:
  assumes "binning_data b t s = (Returns u, s')" and "get_stack t s = Some k"
    and "\<forall>f \<in> set (data k). shp f = [h, w]" and "0 < b"
  shows "\<exists>k'. get_stack t s' = Some k' \<and> (\<forall>g \<in> set (data k'). shp g = [h div nat b, w div nat b])"
proof -
  from assms(1,2) obtain f fs where fs: "data k = f # fs"
    by (cases "data k") (auto simp add: binning_data_def)
  with assms(3) have sf: "shp f = [h, w]" by simp
  from assms(1,2,4) fs sf obtain gs nh' nw' where
    g: "comprehension (rebin_frame nh' nw' (int h div b) b (int w div b)) (data k) = Returns gs"
       "s' = set_stack t (k\<lparr>data := gs\<rparr>) s"
    by (auto simp add: binning_data_def Let_def split: outcome.splits if_splits)
  have d: "nat (int h div b) = h div nat b" "nat (int w div b) = w div nat b"
    using assms(4) by (simp_all add: nat_div_distrib)
  from comprehension_rebin_shapes [OF g(1)] d
  have "\<forall>g \<in> set gs. shp g = [h div nat b, w div nat b]" by simp
  with g(2) assms(2) show ?thesis by (cases t) auto
qed

lemma binning_data_other:
  "binning_data b Sample s = (r, s') \<Longrightarrow> ob s' = ob s"
  "binning_data b Ob s = (r, s') \<Longrightarrow> sample s' = sample s"
  by (auto simp add: binning_data_def Let_def split: list.splits outcome.splits if_splits)

lemma binning_frame_shapes:
  assumes "binning (BinInt b) force s = (Returns RNone, s')"
    and "force \<or> \<not> st_bin (status s)"
    and "\<forall>f \<in> set (data (sample s) @ data (ob s)). shp f = [h, w]" and "0 < b"
  shows "\<forall>g \<in> set (data (sample s') @ data (ob s')). shp g = [h div nat b, w div nat b]"
proof -
  define s1 where "s1 = s\<lparr>status := (status s)\<lparr>st_bin := True\<rparr>\<rparr>"
  obtain r2 s2 where p2: "binning_data b Sample s1 = (r2, s2)"
    by (cases "binning_data b Sample s1") auto
  obtain r3 s3 where p3: "binning_data b Ob s2 = (r3, s3)"
    by (cases "binning_data b Ob s2") auto
  from assms(1,2) p2 p3 have r: "r2 = Returns ()" "r3 = Returns ()" "s' = s3"
    unfolding binning_def Let_def s1_def [symmetric]
    by (auto split: if_splits outcome.splits)
  have a1: "\<forall>f \<in> set (data (sample s1)). shp f = [h, w]"
    using assms(3) by (simp add: s1_def)
  from binning_data_frame_shapes [of b Sample s1 "()" s2 "sample s1" h w] p2 r a1 assms(4)
  have k2: "\<forall>g \<in> set (data (sample s2)). shp g = [h div nat b, w div nat b]" by auto
  have "ob s2 = ob s1" using binning_data_other(1) [OF p2] .
  then have a2: "\<forall>f \<in> set (data (ob s2)). shp f = [h, w]"
    using assms(3) by (simp add: s1_def)
  from binning_data_frame_shapes [of b Ob s2 "()" s3 "ob s2" h w] p3 r a2 assms(4)
  have k3: "\<forall>g \<in> set (data (ob s3)). shp g = [h div nat b, w div nat b]" by auto
  have "sample s3 = sample s2" using binning_data_other(2) [OF p3] .
  with k2 k3 r(3) show ?thesis by auto
qed

text \<open>
  Claim C9 as stated does not hold: a region that spans the whole frame, or a bin size of 1,
  is a successful \<open>crop\<close> or \<open>binning\<close> after which the frames have the dimensions
  they had, and the stored shape still matches them.
\<close>

theorem shape_still_matches_counterexample:
  "fst (binning (BinInt 1) False (loaded [frame22 1 2 3 4] [frame22 5 6 7 8] [])) = Returns RNone
   \<and> data (sample (snd (binning (BinInt 1) False
         (loaded [frame22 1 2 3 4] [frame22 5 6 7 8] [])))) = [frame22 1 2 3 4]
   \<and> shape (sample (snd (binning (BinInt 1) False
         (loaded [frame22 1 2 3 4] [frame22 5 6 7 8] []))))
       = \<lparr>height = Some 2, width = Some 2\<rparr>
   \<and> fst (crop (RoiObj \<lparr>x0 = 0, y0 = 0, x1 = 1, y1 = 1\<rparr>) False
         (loaded [frame22 1 2 3 4] [frame22 5 6 7 8] [])) = Returns RTrue
   \<and> data (sample (snd (crop (RoiObj \<lparr>x0 = 0, y0 = 0, x1 = 1, y1 = 1\<rparr>) False
         (loaded [frame22 1 2 3 4] [frame22 5 6 7 8] [])))) = [frame22 1 2 3 4]
   \<and> shape (sample (snd (crop (RoiObj \<lparr>x0 = 0, y0 = 0, x1 = 1, y1 = 1\<rparr>) False
         (loaded [frame22 1 2 3 4] [frame22 5 6 7 8] []))))
       = \<lparr>height = Some 2, width = Some 2\<rparr>"
  by code_simp

text \<open>
  Claim C9, amended. Neither \<open>crop\<close> nor \<open>binning\<close> writes the stored shape of a
  role: whatever the arguments and the outcome, \<open>data[role]['shape']\<close> is afterwards what
  it was before. After a successful \<open>crop\<close> with a region inside frames of \<open>h\<close> by
  \<open>w\<close> every sample and open-beam frame is \<open>y1 - y0 + 1\<close> by \<open>x1 - x0 + 1\<close>, and
  after a successful \<open>binning\<close> by a positive \<open>n\<close> it is \<open>h div n\<close> by
  \<open>w div n\<close>. So the stored shape no longer matches the frames whenever these
  dimensions differ from \<open>h\<close> and \<open>w\<close>, which they do unless the region spans the
  whole frame or the division by \<open>n\<close> changes neither side.
\<close>

theorem crop_binning_keep_shape:
  "shape (sample (snd (crop roi force s))) = shape (sample s)
   \<and> shape (ob (snd (crop roi force s))) = shape (ob s)
   \<and> shape (sample (snd (binning b force s))) = shape (sample s)
   \<and> shape (ob (snd (binning b force s))) = shape (ob s)
   \<and> (crop (RoiObj r) force s = (Returns RTrue, s')
        \<and> (\<forall>f \<in> set (data (sample s) @ data (ob s)). shp f = [h, w])
        \<and> 0 \<le> y0 r \<and> y0 r \<le> y1 r \<and> y1 r < int h
        \<and> 0 \<le> x0 r \<and> x0 r \<le> x1 r \<and> x1 r < int w
      \<longrightarrow> (\<forall>g \<in> set (data (sample s') @ data (ob s')).
             shp g = [nat (y1 r - y0 r + 1), nat (x1 r - x0 r + 1)]))
   \<and> (binning (BinInt n) force s = (Returns RNone, s'')
        \<and> (force \<or> \<not> st_bin (status s))
        \<and> (\<forall>f \<in> set (data (sample s) @ data (ob s)). shp f = [h, w])
        \<and> 0 < n
      \<longrightarrow> (\<forall>g \<in> set (data (sample s'') @ data (ob s'')).
             shp g = [h div nat n, w div nat n]))"
  using crop_keeps_shape [of roi force s] binning_keeps_shape [of b force s]
    crop_frame_shapes [of r force s s' h w] binning_frame_shapes [of n force s s'' h w]
  by blast

theorem crop_binning_keep_shape_witness:
  "crop (RoiObj \<lparr>x0 = 1, y0 = 0, x1 = 1, y1 = 1\<rparr>) False
       (loaded [frame22 1 2 3 4] [frame22 5 6 7 8] [])
     = (Returns RTrue,
        snd (crop (RoiObj \<lparr>x0 = 1, y0 = 0, x1 = 1, y1 = 1\<rparr>) False
               (loaded [frame22 1 2 3 4] [frame22 5 6 7 8] [])))
   \<and> list_all (\<lambda>g. shp g = [2, 1])
        (data (sample (snd (crop (RoiObj \<lparr>x0 = 1, y0 = 0, x1 = 1, y1 = 1\<rparr>) False
                 (loaded [frame22 1 2 3 4] [frame22 5 6 7 8] [])))) @
         data (ob (snd (crop (RoiObj \<lparr>x0 = 1, y0 = 0, x1 = 1, y1 = 1\<rparr>) False
                 (loaded [frame22 1 2 3 4] [frame22 5 6 7 8] [])))))
   \<and> shape (sample (snd (crop (RoiObj \<lparr>x0 = 1, y0 = 0, x1 = 1, y1 = 1\<rparr>) False
                 (loaded [frame22 1 2 3 4] [frame22 5 6 7 8] []))))
       = \<lparr>height = Some 2, width = Some 2\<rparr>
   \<and> binning (BinInt 2) False (loaded [frame22 1 2 3 4] [frame22 5 6 7 8] [])
     = (Returns RNone,
        snd (binning (BinInt 2) False (loaded [frame22 1 2 3 4] [frame22 5 6 7 8] [])))
   \<and> list_all (\<lambda>g. shp g = [1, 1])
        (data (sample (snd (binning (BinInt 2) False
                 (loaded [frame22 1 2 3 4] [frame22 5 6 7 8] [])))) @
         data (ob (snd (binning (BinInt 2) False
                 (loaded [frame22 1 2 3 4] [frame22 5 6 7 8] [])))))
   \<and> shape (sample (snd (binning (BinInt 2) False
                 (loaded [frame22 1 2 3 4] [frame22 5 6 7 8] []))))
       = \<lparr>height = Some 2, width = Some 2\<rparr>"
proof -
  let ?S = "loaded [frame22 1 2 3 4] [frame22 5 6 7 8] []"
  let ?R = "\<lparr>x0 = 1, y0 = 0, x1 = 1, y1 = 1\<rparr>"
  let ?C = "snd (crop (RoiObj ?R) False ?S)"
  let ?B = "snd (binning (BinInt 2) False ?S)"
  have c: "crop (RoiObj ?R) False ?S = (Returns RTrue, ?C)"
    by code_simp
  have b: "binning (BinInt 2) False ?S = (Returns RNone, ?B)"
    by code_simp
  have f: "\<forall>f \<in> set (data (sample ?S) @ data (ob ?S)). shp f = [2, 2]"
    by (simp add: loaded_def stack_of_def empty_stack_def frame22_def)
  have st: "False \<or> \<not> st_bin (status ?S)"
    by (simp add: loaded_def init_def)
  have sh: "shape (sample ?S) = \<lparr>height = Some 2, width = Some 2\<rparr>"
    by (simp add: loaded_def stack_of_def empty_stack_def frame22_def)
  have r: "0 \<le> y0 ?R \<and> y0 ?R \<le> y1 ?R \<and> y1 ?R < int 2 \<and> 0 \<le> x0 ?R \<and> x0 ?R \<le> x1 ?R \<and> x1 ?R < int 2"
    by simp
  from crop_binning_keep_shape [of "RoiObj ?R" False ?S "BinInt 2" ?R ?C 2 2 2 ?B] c b f st sh r
  have "shape (sample ?C) = \<lparr>height = Some 2, width = Some 2\<rparr>"
    "shape (sample ?B) = \<lparr>height = Some 2, width = Some 2\<rparr>"
    "\<forall>g \<in> set (data (sample ?C) @ data (ob ?C)). shp g = [nat (y1 ?R - y0 ?R + 1), nat (x1 ?R - x0 ?R + 1)]"
    "\<forall>g \<in> set (data (sample ?B) @ data (ob ?B)). shp g = [2 div nat 2, 2 div nat 2]"
    by simp_all
  then show ?thesis using c b by (simp add: list_all_iff)
qed

section \<open>Normalization\<close>

text \<open>
  Claim C1 as stated does not hold: without a region \<open>normalization\<close> takes the branch
  that copies the two stacks. Uniform frames of value 2 are frames of value 2 afterwards,
  not frames of ones.
\<close>

theorem normalization_no_roi_counterexample:
  "fst (normalization RoiNone False (loaded [uniform 2 2 (Fin 2)] [uniform 2 2 (Fin 2)] []))
     = Returns RTrue
   \<and> data (sample (snd (normalization RoiNone False
         (loaded [uniform 2 2 (Fin 2)] [uniform 2 2 (Fin 2)] []))))
     = [uniform 2 2 (Fin 2)]
   \<and> data (ob (snd (normalization RoiNone False
         (loaded [uniform 2 2 (Fin 2)] [uniform 2 2 (Fin 2)] []))))
     = [uniform 2 2 (Fin 2)]
   \<and> uniform 2 2 (Fin 2) \<noteq> uniform 2 2 (Fin 1)"
  by code_simp

lemma matching_shape_status:
  "data_loaded_have_matching_shape (s\<lparr>status := x\<rparr>) = data_loaded_have_matching_shape s"
  by (simp add: data_loaded_have_matching_shape_def)

text \<open>
  Claim C1, amended. For a pipeline with non-empty sample and open-beam stacks of equal
  counts and matching stored shapes, a call of \<open>normalization\<close> without a region that is
  not skipped (\<open>force\<close> is true, or \<open>normalization\<close> has not run yet) returns
  \<open>True\<close> and leaves every sample frame and every open-beam frame exactly as it was: only
  the run flag is set, and no frame is divided by a mean. In particular, frames that are
  all uniform with a value \<open>v\<close> are still uniform with the value \<open>v\<close> afterwards.
\<close>

theorem normalization_no_roi_unchanged:
  assumes "data (sample s) \<noteq> []" and "data (ob s) \<noteq> []"
    and "length (file_name (sample s)) = length (file_name (ob s))"
    and "data_loaded_have_matching_shape s"
    and "force \<or> \<not> st_normalization (status s)"
  shows "normalization RoiNone force s =
           (Returns RTrue, s\<lparr>status := (status s)\<lparr>st_normalization := True\<rparr>\<rparr>)
       \<and> data (sample (snd (normalization RoiNone force s))) = data (sample s)
       \<and> data (ob (snd (normalization RoiNone force s))) = data (ob s)
       \<and> ((\<forall>f \<in> set (data (sample s) @ data (ob s)). f = uniform h w v)
          \<longrightarrow> (\<forall>f \<in> set (data (sample (snd (normalization RoiNone force s)))
                           @ data (ob (snd (normalization RoiNone force s)))).
                 f = uniform h w v))"
proof -
  have "normalization RoiNone force s =
          (Returns RTrue, s\<lparr>status := (status s)\<lparr>st_normalization := True\<rparr>\<rparr>)"
    using assms by (auto simp add: normalization_def Let_def matching_shape_status)
  then show ?thesis by simp
qed

theorem normalization_no_roi_unchanged_witness:
  "data (sample (loaded [uniform 2 2 (Fin 4)] [uniform 2 2 (Fin 4)] [])) \<noteq> []
   \<and> data (ob (loaded [uniform 2 2 (Fin 4)] [uniform 2 2 (Fin 4)] [])) \<noteq> []
   \<and> length (file_name (sample (loaded [uniform 2 2 (Fin 4)] [uniform 2 2 (Fin 4)] [])))
       = length (file_name (ob (loaded [uniform 2 2 (Fin 4)] [uniform 2 2 (Fin 4)] [])))
   \<and> data_loaded_have_matching_shape (loaded [uniform 2 2 (Fin 4)] [uniform 2 2 (Fin 4)] [])
   \<and> \<not> st_normalization (status (loaded [uniform 2 2 (Fin 4)] [uniform 2 2 (Fin 4)] []))
   \<and> normalization RoiNone False (loaded [uniform 2 2 (Fin 4)] [uniform 2 2 (Fin 4)] []) =
       (Returns RTrue,
        (loaded [uniform 2 2 (Fin 4)] [uniform 2 2 (Fin 4)] [])
          \<lparr>status := (status (loaded [uniform 2 2 (Fin 4)] [uniform 2 2 (Fin 4)] []))
                       \<lparr>st_normalization := True\<rparr>\<rparr>)
   \<and> data (sample (snd (normalization RoiNone False
         (loaded [uniform 2 2 (Fin 4)] [uniform 2 2 (Fin 4)] [])))) = [uniform 2 2 (Fin 4)]
   \<and> data (ob (snd (normalization RoiNone False
         (loaded [uniform 2 2 (Fin 4)] [uniform 2 2 (Fin 4)] [])))) = [uniform 2 2 (Fin 4)]
   \<and> list_all (\<lambda>f. f = uniform 2 2 (Fin 4))
        (data (sample (snd (normalization RoiNone False
           (loaded [uniform 2 2 (Fin 4)] [uniform 2 2 (Fin 4)] []))))
         @ data (ob (snd (normalization RoiNone False
           (loaded [uniform 2 2 (Fin 4)] [uniform 2 2 (Fin 4)] [])))))"
proof -
  let ?S = "loaded [uniform 2 2 (Fin 4)] [uniform 2 2 (Fin 4)] []"
  have d: "data (sample ?S) = [uniform 2 2 (Fin 4)]" "data (ob ?S) = [uniform 2 2 (Fin 4)]"
    by (simp_all add: loaded_def stack_of_def empty_stack_def)
  have h1: "data (sample ?S) \<noteq> []" and h2: "data (ob ?S) \<noteq> []"
    and h3: "length (file_name (sample ?S)) = length (file_name (ob ?S))"
    by (simp_all add: loaded_def stack_of_def empty_stack_def)
  have h4: "data_loaded_have_matching_shape ?S"
    by (simp add: data_loaded_have_matching_shape_def loaded_def stack_of_def empty_stack_def
                  uniform_def unknown_shape_def)
  have h5: "False \<or> \<not> st_normalization (status ?S)"
    by (simp add: loaded_def init_def)
  have u: "\<forall>f \<in> set (data (sample ?S) @ data (ob ?S)). f = uniform 2 2 (Fin 4)"
    by (simp add: d)
  from normalization_no_roi_unchanged [OF h1 h2 h3 h4 h5, of 2 2 "Fin 4"] u
  have "normalization RoiNone False ?S =
          (Returns RTrue, ?S\<lparr>status := (status ?S)\<lparr>st_normalization := True\<rparr>\<rparr>)"
    "data (sample (snd (normalization RoiNone False ?S))) = data (sample ?S)"
    "data (ob (snd (normalization RoiNone False ?S))) = data (ob ?S)"
    "\<forall>f \<in> set (data (sample (snd (normalization RoiNone False ?S)))
                @ data (ob (snd (normalization RoiNone False ?S)))). f = uniform 2 2 (Fin 4)"
    by blast+
  with h1 h2 h3 h4 h5 d show ?thesis by (simp add: list_all_iff)
qed

text \<open>
  A frame is divided only when a region is given: \<open>[[1, 3], [5, 7]]\<close> with the first row
  as region is divided by 2, the open-beam frame of twos by 2.
\<close>

lemma normalization_first_row:
  "normalization (RoiObj \<lparr>x0 = 0, y0 = 0, x1 = 1, y1 = 0\<rparr>) False
     (loaded [frame22 1 3 5 7] [uniform 2 2 (Fin 2)] []) =
   (Returns RTrue,
    (loaded [frame22 1 3 5 7] [uniform 2 2 (Fin 2)] [])
      \<lparr>status := (status (loaded [frame22 1 3 5 7] [uniform 2 2 (Fin 2)] []))
                   \<lparr>st_normalization := True\<rparr>,
        sample := (sample (loaded [frame22 1 3 5 7] [uniform 2 2 (Fin 2)] []))
                   \<lparr>data := [frame22 (1 / 2) (3 / 2) (5 / 2) (7 / 2)]\<rparr>,
        ob := (ob (loaded [frame22 1 3 5 7] [uniform 2 2 (Fin 2)] []))
                   \<lparr>data := [uniform 2 2 (Fin 1)]\<rparr>\<rparr>)"
  by code_simp

end
